theory Spec2Isabelle
  imports Complex_Main "HOL-Library.List_Lexorder" "HOL-Library.Char_ord"
begin

section \<open>GENESIS video generation pipeline (motion-specs/generate_video.py)\<close>

text \<open>
  A shallow embedding of the pipeline of \<^verbatim>\<open>generate_video.py\<close>: the specification loader,
  the video generator with its retry loop, the concatenator's FFmpeg command, the timeline
  visualizer and the orchestrator.

  Conventions of the model.
  \<^item> Python exceptions are values of \<open>py_error\<close>; a function that can raise returns
    \<open>py_error + 'a\<close>, with \<open>Inl\<close> for the exception that leaves the function.
  \<^item> Python \<^verbatim>\<open>str\<close> is \<open>string\<close>; characters outside ASCII are not interpreted
    (\<^verbatim>\<open>lower\<close>, \<^verbatim>\<open>int\<close> act on ASCII letters and digits).
  \<^item> Python \<^verbatim>\<open>float\<close> values (times, delays, crossfade offsets) are exact rationals;
    the binary rounding of the interpreter is not modelled.
  \<^item> The clock, the remote service, the MD5 digest and the file system are explicit:
    a \<open>world\<close> record is passed through every effectful function, and the behaviour of
    the remote service is a parameter.
\<close>

subsection \<open>Exceptions\<close>

datatype py_error =
    KeyError string
  | IndexError string
  | ValueError string
  | AttributeError string
  | HTTPStatusError string
  | OtherException string

text \<open>\<^verbatim>\<open>str(e)\<close>: a \<^verbatim>\<open>KeyError\<close> prints the repr of its key, the others their message.\<close>

definition quote :: "string \<Rightarrow> string" where
  "quote s = [CHR 0x27] @ s @ [CHR 0x27]"

fun str_exc :: "py_error \<Rightarrow> string" where
  "str_exc (KeyError k) = quote k"
| "str_exc (IndexError m) = m"
| "str_exc (ValueError m) = m"
| "str_exc (AttributeError m) = m"
| "str_exc (HTTPStatusError m) = m"
| "str_exc (OtherException m) = m"

subsection \<open>Strings\<close>

definition NL :: string where
  "NL = [CHR 0x0A]"

definition is_digit :: "char \<Rightarrow> bool" where
  "is_digit c = (CHR ''0'' \<le> c \<and> c \<le> CHR ''9'')"

definition digit_val :: "char \<Rightarrow> int" where
  "digit_val c = int (of_char c) - 48"

definition digit_char :: "nat \<Rightarrow> char" where
  "digit_char d = char_of (48 + d)"

text \<open>\<^verbatim>\<open>str(n)\<close> for a natural number, and for an integer.\<close>

fun str_nat :: "nat \<Rightarrow> string" where
  "str_nat n = (if n < 10 then [digit_char n] else str_nat (n div 10) @ [digit_char (n mod 10)])"

declare str_nat.simps [simp del]

definition str_int :: "int \<Rightarrow> string" where
  "str_int i = (if i < 0 then CHR ''-'' # str_nat (nat (- i)) else str_nat (nat i))"

text \<open>The format specifications \<^verbatim>\<open>{x:>w}\<close> (right-aligned in width \<open>w\<close>) and
  \<^verbatim>\<open>{n:02d}\<close> (at least two digits, zero-padded).\<close>

definition rjust :: "nat \<Rightarrow> string \<Rightarrow> string" where
  "rjust w s = replicate (w - length s) CHR '' '' @ s"

definition fmt_02d :: "int \<Rightarrow> string" where
  "fmt_02d i =
     (if i < 0 then CHR ''-'' # replicate (1 - length (str_nat (nat (- i)))) CHR ''0'' @ str_nat (nat (- i))
      else replicate (2 - length (str_nat (nat i))) CHR ''0'' @ str_nat (nat i))"

text \<open>\<^verbatim>\<open>sep.join(xs)\<close>.\<close>

fun join :: "string \<Rightarrow> string list \<Rightarrow> string" where
  "join sep [] = []"
| "join sep [x] = x"
| "join sep (x # y # ys) = x @ sep @ join sep (y # ys)"

text \<open>\<^verbatim>\<open>s.lower()\<close> and \<^verbatim>\<open>s.replace(' ', '_')\<close>.\<close>

definition lower_char :: "char \<Rightarrow> char" where
  "lower_char c = (if CHR ''A'' \<le> c \<and> c \<le> CHR ''Z'' then char_of (of_char c + (32::nat)) else c)"

definition lower :: "string \<Rightarrow> string" where
  "lower s = map lower_char s"

definition replace_space :: "string \<Rightarrow> string" where
  "replace_space s = map (\<lambda>c. if c = CHR '' '' then CHR ''_'' else c) s"

text \<open>\<^verbatim>\<open>d.get(k, default)\<close> on a dictionary.\<close>

definition dict_get :: "('k \<rightharpoonup> 'v) \<Rightarrow> 'k \<Rightarrow> 'v \<Rightarrow> 'v" where
  "dict_get d k dflt = (case d k of None \<Rightarrow> dflt | Some v \<Rightarrow> v)"

subsection \<open>Paths\<close>

text \<open>A \<^verbatim>\<open>Path\<close> is its string; \<^verbatim>\<open>dir / name\<close> joins with a slash and
  \<^verbatim>\<open>with_suffix\<close> replaces what follows the last dot of the last component.\<close>

definition path_join :: "string \<Rightarrow> string \<Rightarrow> string" where
  "path_join d f = d @ ''/'' @ f"

definition with_suffix :: "string \<Rightarrow> string \<Rightarrow> string" where
  "with_suffix p suf =
     (let r = rev p; nm = takeWhile (\<lambda>c. c \<noteq> CHR ''/'') r; ext = takeWhile (\<lambda>c. c \<noteq> CHR ''.'') nm
      in if CHR ''.'' \<in> set nm \<and> ext \<noteq> [] \<and> length ext + 1 < length nm
         then rev (drop (length ext + 1) r) @ suf
         else p @ suf)"

subsection \<open>Configuration and data structures\<close>

record Config =
  api_endpoint :: string
  api_key :: string
  output_dir :: string
  temp_dir :: string
  resolution :: "int \<times> int"
  fps :: int
  segment_duration :: int
  quality :: string
  format :: string
  codec :: string
  guidance_scale :: rat
  num_inference_steps :: int
  seed :: "int option"
  max_retries :: int
  retry_delay :: rat

text \<open>The defaults of the dataclass; the API key is read from the environment.\<close>

definition default_Config :: "string \<Rightarrow> string \<Rightarrow> Config" where
  "default_Config key out =
     \<lparr> api_endpoint = ''https://api.veo.google.com/v1'', api_key = key,
       output_dir = out, temp_dir = ''temp'', resolution = (1920, 1080), fps = 60,
       segment_duration = 8, quality = ''high'', format = ''mp4'', codec = ''h264'',
       guidance_scale = 7.5, num_inference_steps = 50, seed = None,
       max_retries = 3, retry_delay = 5 \<rparr>"

record Segment =
  id_seg :: string
  name :: string
  duration_seconds :: int
  prompt :: string
  negative_prompt :: string
  entry_frame :: "string \<rightharpoonup> string"
  exit_frame :: "string \<rightharpoonup> string"
  key_moments :: "(string \<rightharpoonup> string) list"
  audio_description :: string
  motion_keywords :: "string list"
  continuity_requirements :: "string \<rightharpoonup> string"

definition output_filename :: "Segment \<Rightarrow> string" where
  "output_filename s = id_seg s @ ''_'' @ replace_space (lower (name s)) @ ''.mp4''"

record Metadata =
  md_prompt_hash :: string
  md_enhanced_prompt_length :: nat
  md_motion_keywords :: "string list"

record GenerationResult =
  segment_id :: string
  success :: bool
  output_path :: "string option"
  generation_time :: rat
  error_message :: "string option"
  metadata :: "Metadata option"

subsection \<open>Specification loader\<close>

text \<open>
  An entry of the \<^verbatim>\<open>prompts\<close> list of \<^verbatim>\<open>prompt_chain.json\<close>. The entry is a JSON
  object; the record says for each key the loader reads whether the key is present
  (\<open>Some\<close>) and, if so, its value, of the type the \<^verbatim>\<open>Segment\<close> dataclass declares.
\<close>

record PromptData =
  pd_segment_id :: "string option"
  pd_segment_name :: "string option"
  pd_duration_seconds :: "int option"
  pd_prompt :: "string option"
  pd_negative_prompt :: "string option"
  pd_entry_frame :: "(string \<rightharpoonup> string) option"
  pd_exit_frame :: "(string \<rightharpoonup> string) option"
  pd_key_moments :: "(string \<rightharpoonup> string) list option"
  pd_audio_description :: "string option"
  pd_motion_keywords :: "string list option"
  pd_continuity_requirements :: "(string \<rightharpoonup> string) option"

text \<open>\<^verbatim>\<open>prompt_data[key]\<close> raises \<^verbatim>\<open>KeyError(key)\<close> when the key is absent;
  \<^verbatim>\<open>prompt_data.get(key, default)\<close> gives the default.\<close>

definition subscript :: "'a option \<Rightarrow> string \<Rightarrow> py_error + 'a" where
  "subscript v key = (case v of None \<Rightarrow> Inl (KeyError key) | Some x \<Rightarrow> Inr x)"

definition get_default :: "'a option \<Rightarrow> 'a \<Rightarrow> 'a" where
  "get_default v dflt = (case v of None \<Rightarrow> dflt | Some x \<Rightarrow> x)"

text \<open>The constructor call of the loop body: the keyword arguments are evaluated from
  left to right, so the first absent required key is the one reported.\<close>

definition make_segment :: "PromptData \<Rightarrow> py_error + Segment" where
  "make_segment pd =
     (case subscript (pd_segment_id pd) ''segment_id'' of Inl e \<Rightarrow> Inl e | Inr i \<Rightarrow>
      case subscript (pd_segment_name pd) ''segment_name'' of Inl e \<Rightarrow> Inl e | Inr n \<Rightarrow>
      case subscript (pd_duration_seconds pd) ''duration_seconds'' of Inl e \<Rightarrow> Inl e | Inr d \<Rightarrow>
      case subscript (pd_prompt pd) ''prompt'' of Inl e \<Rightarrow> Inl e | Inr p \<Rightarrow>
      Inr \<lparr> id_seg = i, name = n, duration_seconds = d, prompt = p,
            negative_prompt = get_default (pd_negative_prompt pd) '''',
            entry_frame = get_default (pd_entry_frame pd) Map.empty,
            exit_frame = get_default (pd_exit_frame pd) Map.empty,
            key_moments = get_default (pd_key_moments pd) [],
            audio_description = get_default (pd_audio_description pd) '''',
            motion_keywords = get_default (pd_motion_keywords pd) [],
            continuity_requirements = get_default (pd_continuity_requirements pd) Map.empty \<rparr>)"

text \<open>The loop of \<^verbatim>\<open>SpecLoader.get_segments\<close> over the entries: it stops at the first
  exception.\<close>

fun segments_loop :: "PromptData list \<Rightarrow> py_error + Segment list" where
  "segments_loop [] = Inr []"
| "segments_loop (pd # pds) =
     (case make_segment pd of
        Inl e \<Rightarrow> Inl e
      | Inr s \<Rightarrow> (case segments_loop pds of Inl e \<Rightarrow> Inl e | Inr ss \<Rightarrow> Inr (s # ss)))"

text \<open>
  \<^verbatim>\<open>SpecLoader.get_global_context\<close> returns whatever the artifact holds under
  \<^verbatim>\<open>global_context\<close>, unchecked: a dictionary of strings, or a value that is no
  dictionary (JSON \<^verbatim>\<open>null\<close>, Python \<^verbatim>\<open>None\<close>).
\<close>

datatype global_context = ContextDict "string \<rightharpoonup> string" | ContextNone

text \<open>The loaded \<^verbatim>\<open>prompt_chain\<close> dictionary (empty when the file is missing): each of
  its two keys may be absent.\<close>

record PromptChain =
  pc_prompts :: "PromptData list option"
  pc_global_context :: "global_context option"

definition get_segments :: "PromptChain \<Rightarrow> py_error + Segment list" where
  "get_segments pc = segments_loop (get_default (pc_prompts pc) [])"

definition get_global_context :: "PromptChain \<Rightarrow> global_context" where
  "get_global_context pc = get_default (pc_global_context pc) (ContextDict Map.empty)"

subsection \<open>Artifacts written by the pipeline\<close>

record SimMetadata =
  sm_segment_id :: string
  sm_segment_name :: string
  sm_duration :: int
  sm_prompt :: string
  sm_negative_prompt :: string
  sm_key_moments :: "(string \<rightharpoonup> string) list"
  sm_motion_keywords :: "string list"
  sm_generated_at :: rat
  sm_status :: string

record Manifest =
  mf_segments :: "string list"
  mf_output :: string
  mf_transition :: string
  mf_transition_duration :: rat
  mf_created_at :: rat

text \<open>One \<^verbatim>\<open>xfade\<close> stage of the filter graph:
  \<^verbatim>\<open>[first][second]xfade=transition=fade:duration=D:offset=O[label]\<close>.\<close>

record XFade =
  xf_first :: string
  xf_second :: string
  xf_duration :: rat
  xf_offset :: rat
  xf_label :: string

text \<open>The shell script of \<^verbatim>\<open>_generate_ffmpeg_command\<close>, by its variable parts.\<close>

record FFmpegCommand =
  ff_inputs :: string
  ff_filter_complex :: "XFade list"
  ff_final_label :: string
  ff_output :: string

record ReportEntry =
  re_segment_id :: string
  re_success :: bool
  re_output_path :: "string option"
  re_generation_time :: rat
  re_error :: "string option"
  re_metadata :: "Metadata option"

record Report =
  rp_project :: string
  rp_generated_at :: rat
  total_segments :: nat
  successful :: nat
  failed :: nat
  total_generation_time :: rat
  results :: "ReportEntry list"
  coverage_matrix :: "(string \<times> rat) list"

datatype file_content =
    TextFile string
  | SimMetadataFile SimMetadata
  | ManifestFile Manifest
  | CommandFile FFmpegCommand
  | ReportFile Report

subsection \<open>The world outside the program\<close>

text \<open>
  \<open>now\<close> is what \<^verbatim>\<open>time.time()\<close> reads, \<open>posts\<close> counts the calls of
  \<^verbatim>\<open>client.post\<close> and \<open>sent\<close> lists the payloads they carried, \<open>sleeps\<close> logs the arguments of \<^verbatim>\<open>asyncio.sleep\<close> in order,
  \<open>files\<close> is the file system (every write succeeds) and \<open>client_closed\<close> records
  \<^verbatim>\<open>client.aclose()\<close>.
\<close>

datatype payload_value = PStr string | PInt int | PFloat rat

record world =
  now :: rat
  posts :: nat
  sent :: "(string \<rightharpoonup> payload_value) list"
  sleeps :: "rat list"
  files :: "string \<rightharpoonup> file_content"
  client_closed :: bool

text \<open>
  What one attempt of the live request does: the response has a success status and a
  JSON body; or \<^verbatim>\<open>raise_for_status\<close> raises \<^verbatim>\<open>httpx.HTTPStatusError\<close>
  (a non-2xx response); or another exception is raised (a transport error such as
  \<^verbatim>\<open>httpx.ConnectError\<close> or a timeout, or a body that is no JSON). The string is
  \<^verbatim>\<open>str(e)\<close>.
\<close>

datatype api_outcome = Accepted | StatusFailure string | OtherFailure string

record env =
  attempt_outcome :: "nat \<Rightarrow> api_outcome"
  attempt_latency :: "nat \<Rightarrow> rat"
  md5_hexdigest :: "string \<Rightarrow> string"

definition sleep :: "rat \<Rightarrow> world \<Rightarrow> world" where
  "sleep d w = w\<lparr> now := now w + d, sleeps := sleeps w @ [d] \<rparr>"

definition write_file :: "string \<Rightarrow> file_content \<Rightarrow> world \<Rightarrow> world" where
  "write_file p c w = w\<lparr> files := (files w)(p \<mapsto> c) \<rparr>"

subsection \<open>Video generator\<close>

record VideoGenerator =
  config :: Config
  client :: bool

text \<open>\<^verbatim>\<open>VideoGenerator.__init__\<close>: a client exists iff httpx is installed and the key is
  not empty.\<close>

definition VideoGenerator_init :: "bool \<Rightarrow> Config \<Rightarrow> VideoGenerator" where
  "VideoGenerator_init has_httpx cfg = \<lparr> config = cfg, client = (has_httpx \<and> api_key cfg \<noteq> []) \<rparr>"

definition prompt_hash :: "env \<Rightarrow> Segment \<Rightarrow> string" where
  "prompt_hash e s = take 8 (md5_hexdigest e (prompt s))"

text \<open>\<^verbatim>\<open>_build_enhanced_prompt\<close>: \<^verbatim>\<open>global_context.get\<close> raises
  \<^verbatim>\<open>AttributeError\<close> on a value that is no dictionary.\<close>

definition build_enhanced_prompt :: "Segment \<Rightarrow> global_context \<Rightarrow> py_error + string" where
  "build_enhanced_prompt seg gc =
     (case gc of
        ContextNone \<Rightarrow>
          Inl (AttributeError (quote ''NoneType'' @ '' object has no attribute '' @ quote ''get''))
      | ContextDict d \<Rightarrow>
          Inr (''Style: '' @ dict_get d ''style'' [] @ NL @
               ''Color Palette: '' @ dict_get d ''color_palette'' [] @ NL @
               ''Device: '' @ dict_get d ''device'' [] @ NL @
               ''Lighting: '' @ dict_get d ''lighting'' [] @ NL @
               ''Camera: '' @ dict_get d ''camera'' [] @ NL @
               ''Quality: '' @ dict_get d ''quality'' [] @ NL @
               NL @
               prompt seg))"

text \<open>The truth value of \<^verbatim>\<open>self.config.seed\<close>, an \<^verbatim>\<open>Optional[int]\<close>: \<^verbatim>\<open>None\<close>
  and \<^verbatim>\<open>0\<close> are false.\<close>

definition truthy_seed :: "int option \<Rightarrow> bool" where
  "truthy_seed s = (case s of None \<Rightarrow> False | Some n \<Rightarrow> n \<noteq> 0)"

definition build_payload :: "Config \<Rightarrow> Segment \<Rightarrow> string \<Rightarrow> (string \<rightharpoonup> payload_value)" where
  "build_payload cfg seg p =
     (let payload =
        [ ''prompt'' \<mapsto> PStr p,
          ''negative_prompt'' \<mapsto> PStr (negative_prompt seg),
          ''duration'' \<mapsto> PInt (duration_seconds seg),
          ''resolution'' \<mapsto> PStr (str_int (fst (resolution cfg)) @ ''x'' @ str_int (snd (resolution cfg))),
          ''fps'' \<mapsto> PInt (fps cfg),
          ''guidance_scale'' \<mapsto> PFloat (guidance_scale cfg),
          ''num_inference_steps'' \<mapsto> PInt (num_inference_steps cfg) ]
      in if truthy_seed (seed cfg) then payload(''seed'' \<mapsto> PInt (the (seed cfg))) else payload)"

text \<open>
  The loop of \<^verbatim>\<open>_call_api\<close> over \<^verbatim>\<open>range(max_retries)\<close>. Only
  \<^verbatim>\<open>httpx.HTTPStatusError\<close> is caught; on an attempt before the last it sleeps and goes
  on, on the last it is raised again. Any other exception leaves the loop at once. When the
  range is exhausted the function returns \<^verbatim>\<open>None\<close>. A returned \<open>Some k\<close> is the body
  of the response to post number \<open>k\<close>. The payload is built once, before the loop, and
  sent unchanged on every attempt.
\<close>

fun call_api_loop ::
  "Config \<Rightarrow> env \<Rightarrow> (string \<rightharpoonup> payload_value) \<Rightarrow> nat list \<Rightarrow> world
     \<Rightarrow> (py_error + nat option) \<times> world" where
  "call_api_loop cfg e payload [] w = (Inr None, w)"
| "call_api_loop cfg e payload (attempt # rest) w =
     (let k = posts w;
          w1 = w\<lparr> now := now w + attempt_latency e k, posts := Suc k, sent := sent w @ [payload] \<rparr>
      in case attempt_outcome e k of
           Accepted \<Rightarrow> (Inr (Some k), w1)
         | StatusFailure m \<Rightarrow>
             if int attempt < max_retries cfg - 1
             then call_api_loop cfg e payload rest (sleep (retry_delay cfg) w1)
             else (Inl (HTTPStatusError m), w1)
         | OtherFailure m \<Rightarrow> (Inl (OtherException m), w1))"

definition call_api :: "Config \<Rightarrow> env \<Rightarrow> Segment \<Rightarrow> string \<Rightarrow> world \<Rightarrow> (py_error + nat option) \<times> world" where
  "call_api cfg e seg p w =
     call_api_loop cfg e (build_payload cfg seg p) [0 ..< nat (max_retries cfg)] w"

text \<open>\<^verbatim>\<open>_simulate_generation\<close>: sleeps half a second and writes the metadata record
  beside the output path.\<close>

definition simulate_generation :: "Config \<Rightarrow> Segment \<Rightarrow> world \<Rightarrow> (py_error + string) \<times> world" where
  "simulate_generation cfg seg w =
     (let w1 = sleep 0.5 w;
          out = path_join (output_dir cfg) (output_filename seg);
          metadata_path = with_suffix out ''.json'';
          md = \<lparr> sm_segment_id = id_seg seg, sm_segment_name = name seg,
                 sm_duration = duration_seconds seg, sm_prompt = prompt seg,
                 sm_negative_prompt = negative_prompt seg, sm_key_moments = key_moments seg,
                 sm_motion_keywords = motion_keywords seg, sm_generated_at = now w1,
                 sm_status = ''simulated'' \<rparr>
      in (Inr metadata_path, write_file metadata_path (SimMetadataFile md) w1))"

text \<open>The request or the simulation, as the \<^verbatim>\<open>try\<close> block selects it:
  \<open>Inr ()\<close> when no exception was raised.\<close>

definition dispatch :: "VideoGenerator \<Rightarrow> env \<Rightarrow> Segment \<Rightarrow> string \<Rightarrow> world \<Rightarrow> (py_error + unit) \<times> world" where
  "dispatch g e seg enhanced w =
     (if client g \<and> api_key (config g) \<noteq> []
      then (case call_api (config g) e seg enhanced w of
              (Inl x, w') \<Rightarrow> (Inl x, w') | (Inr _, w') \<Rightarrow> (Inr (), w'))
      else (case simulate_generation (config g) seg w of
              (Inl x, w') \<Rightarrow> (Inl x, w') | (Inr _, w') \<Rightarrow> (Inr (), w')))"

text \<open>
  \<^verbatim>\<open>generate_segment\<close>. The start time, the prompt hash and the enhanced prompt are
  computed before the \<^verbatim>\<open>try\<close> block: an exception there leaves the function
  (\<open>Inl\<close>). An exception inside the block becomes a failure result.
\<close>

definition generate_segment ::
  "VideoGenerator \<Rightarrow> env \<Rightarrow> Segment \<Rightarrow> global_context \<Rightarrow> world \<Rightarrow> (py_error + GenerationResult) \<times> world" where
  "generate_segment g e seg gc w =
     (let start_time = now w in
      case build_enhanced_prompt seg gc of
        Inl x \<Rightarrow> (Inl x, w)
      | Inr enhanced \<Rightarrow>
          (case dispatch g e seg enhanced w of
             (Inr _, w') \<Rightarrow>
               (Inr \<lparr> segment_id = id_seg seg, success = True,
                      output_path = Some (path_join (output_dir (config g)) (output_filename seg)),
                      generation_time = now w' - start_time,
                      error_message = None,
                      metadata = Some \<lparr> md_prompt_hash = prompt_hash e seg,
                                        md_enhanced_prompt_length = length enhanced,
                                        md_motion_keywords = motion_keywords seg \<rparr> \<rparr>, w')
           | (Inl x, w') \<Rightarrow>
               (Inr \<lparr> segment_id = id_seg seg, success = False,
                      output_path = None,
                      generation_time = now w' - start_time,
                      error_message = Some (str_exc x),
                      metadata = None \<rparr>, w')))"

definition close :: "VideoGenerator \<Rightarrow> world \<Rightarrow> world" where
  "close g w = (if client g then w\<lparr> client_closed := True \<rparr> else w)"

subsection \<open>Video concatenator\<close>

text \<open>The body of the loop of \<^verbatim>\<open>_generate_ffmpeg_command\<close> at index \<open>i\<close>: the first
  stage is a literal, the later ones compute their labels and their offset.\<close>

definition xfade_stage :: "nat \<Rightarrow> XFade" where
  "xfade_stage i =
     (if i = 0
      then \<lparr> xf_first = ''0:v'', xf_second = ''1:v'', xf_duration = 0.2, xf_offset = 7.8,
             xf_label = ''v01'' \<rparr>
      else (let prev = (if i > 1 then ''v'' @ fmt_02d (int i - 1) @ fmt_02d (int i) else ''v01'');
                curr = ''v'' @ fmt_02d (int i) @ fmt_02d (int i + 1);
                offset = 7.8 + (of_nat i * 7.8)
            in \<lparr> xf_first = prev, xf_second = str_nat (i + 1) @ '':v'', xf_duration = 0.2,
                 xf_offset = offset, xf_label = curr \<rparr>))"

definition generate_ffmpeg_command :: "string list \<Rightarrow> string \<Rightarrow> FFmpegCommand" where
  "generate_ffmpeg_command segments output =
     (let inputs = join '' '' (map (\<lambda>p. ''-i '' @ [CHR 0x22] @ p @ [CHR 0x22]) segments);
          n = length segments;
          filter_parts = map xfade_stage [0 ..< n - 1];
          final_label = (if n > 2 then ''v'' @ fmt_02d (int n - 2) @ fmt_02d (int n - 1) else ''v01'')
      in \<lparr> ff_inputs = inputs, ff_filter_complex = filter_parts, ff_final_label = final_label,
           ff_output = output \<rparr>)"

definition concatenate :: "string list \<Rightarrow> string \<Rightarrow> world \<Rightarrow> bool \<times> world" where
  "concatenate segment_paths out w =
     (let manifest = \<lparr> mf_segments = segment_paths, mf_output = out, mf_transition = ''crossfade'',
                        mf_transition_duration = 0.2, mf_created_at = now w \<rparr>;
          w1 = write_file (with_suffix out ''.concat.json'') (ManifestFile manifest) w;
          ffmpeg_cmd = generate_ffmpeg_command segment_paths out;
          w2 = write_file (with_suffix out ''.ffmpeg.sh'') (CommandFile ffmpeg_cmd) w1
      in (True, w2))"

subsection \<open>Timeline visualizer\<close>

text \<open>\<^verbatim>\<open>s[i]\<close> on a string, \<^verbatim>\<open>int(c)\<close> on a string of one character, and a loop that
  appends what its body returns and stops at the first exception.\<close>

definition str_index :: "string \<Rightarrow> nat \<Rightarrow> py_error + char" where
  "str_index s i = (if i < length s then Inr (s ! i) else Inl (IndexError ''string index out of range''))"

definition int_of_char :: "char \<Rightarrow> py_error + int" where
  "int_of_char c =
     (if is_digit c then Inr (digit_val c)
      else Inl (ValueError (''invalid literal for int() with base 10: '' @ quote [c])))"

fun collect :: "('a \<Rightarrow> py_error + 'b) \<Rightarrow> 'a list \<Rightarrow> py_error + 'b list" where
  "collect f [] = Inr []"
| "collect f (x # xs) =
     (case f x of
        Inl e \<Rightarrow> Inl e
      | Inr y \<Rightarrow> (case collect f xs of Inl e \<Rightarrow> Inl e | Inr ys \<Rightarrow> Inr (y # ys)))"

text \<open>\<^verbatim>\<open>int(seg.id.split('_')[0][1]) * 8 - 8 if seg.id[0] == 'S' else 0\<close>: the condition is
  evaluated first.\<close>

definition start_sec :: "string \<Rightarrow> py_error + int" where
  "start_sec sid =
     (case str_index sid 0 of Inl e \<Rightarrow> Inl e | Inr c0 \<Rightarrow>
      if c0 = CHR ''S''
      then (case str_index (takeWhile (\<lambda>c. c \<noteq> CHR ''_'') sid) 1 of Inl e \<Rightarrow> Inl e | Inr c \<Rightarrow>
            case int_of_char c of Inl e \<Rightarrow> Inl e | Inr d \<Rightarrow> Inr (d * 8 - 8))
      else Inr 0)"

text \<open>The three lines the first loop appends for one segment.\<close>

definition segment_bar :: "Segment \<Rightarrow> py_error + string list" where
  "segment_bar seg =
     (case start_sec (id_seg seg) of Inl e \<Rightarrow> Inl e | Inr start \<Rightarrow>
      case str_index (id_seg seg) 1 of Inl e \<Rightarrow> Inl e | Inr c \<Rightarrow>
      case int_of_char c of Inl e \<Rightarrow> Inl e | Inr d \<Rightarrow>
        (let seg_num = d - 1;
             bar = replicate (nat (seg_num * 8)) CHR '' '' @ ''['' @ replicate 6 CHR ''='' @ '']''
         in Inr [''S'' @ str_int (seg_num + 1) @ '': '' @ bar, ''    '' @ name seg, []]))"

text \<open>A key moment's line reads \<^verbatim>\<open>moment['time']\<close>, then \<^verbatim>\<open>moment['action']\<close>.\<close>

definition moment_line :: "(string \<rightharpoonup> string) \<Rightarrow> py_error + string" where
  "moment_line m =
     (case m ''time'' of None \<Rightarrow> Inl (KeyError ''time'') | Some t \<Rightarrow>
      case m ''action'' of None \<Rightarrow> Inl (KeyError ''action'') | Some a \<Rightarrow>
      Inr (''  '' @ rjust 8 t @ '' : '' @ a))"

definition segment_events :: "Segment \<Rightarrow> py_error + string list" where
  "segment_events seg =
     (case collect moment_line (take 3 (key_moments seg)) of
        Inl e \<Rightarrow> Inl e
      | Inr ls \<Rightarrow> Inr ((NL @ id_seg seg @ '' - '' @ name seg @ '':'') # ls))"

definition ruler :: string where
  "ruler = ''Time:  '' @ concat (map (\<lambda>k. rjust 3 (str_nat (8 * k)) @ ''s'' @ replicate 5 CHR '' '') [0 ..< 8])"

text \<open>\<^verbatim>\<open>TimelineVisualizer.generate\<close>.\<close>

definition generate :: "Segment list \<Rightarrow> py_error + string" where
  "generate segments =
     (case collect segment_bar segments of Inl e \<Rightarrow> Inl e | Inr bars \<Rightarrow>
      case collect segment_events segments of Inl e \<Rightarrow> Inl e | Inr events \<Rightarrow>
        (let all_keywords = remdups (concat (map motion_keywords segments));
             keywords_line = join '', '' (sort all_keywords);
             lines =
               [replicate 80 CHR ''='', ''KAIZEN ELITE PORTFOLIO - MOTION TIMELINE'',
                replicate 80 CHR ''='', [], ruler, ''       '' @ replicate 7 CHR ''|'', []]
               @ concat bars
               @ [replicate 80 CHR ''-'', ''KEY EVENTS:'', replicate 80 CHR ''-'']
               @ concat events
               @ [[], replicate 80 CHR ''-'', ''MOTION VOCABULARY:'', replicate 80 CHR ''-'',
                  keywords_line, [], replicate 80 CHR ''='',
                  ''Total Duration: 56 seconds | Segments: '' @ str_nat (length segments)
                    @ '' | Resolution: 1920x1080'',
                  replicate 80 CHR ''='']
         in Inr (join NL lines)))"

subsection \<open>Orchestrator\<close>

definition coverage :: "(string \<times> rat) list" where
  "coverage =
     map (\<lambda>k. (k, 1))
       [''dimension_1_input_parsing'', ''dimension_2_scene_composition'',
        ''dimension_3_design_tokens'', ''dimension_4_flow_decomposition'',
        ''dimension_5_timeline_architecture'', ''dimension_6_component_specification'',
        ''dimension_7_motion_tracks'', ''dimension_8_interaction_choreography'',
        ''dimension_9_state_machines'', ''dimension_10_transition_systems'',
        ''dimension_11_audio_design'', ''dimension_12_physics_parameters'',
        ''dimension_13_micro_interactions'', ''dimension_14_accessibility_motion'',
        ''dimension_15_platform_adaptation'', ''dimension_16_temporal_segmentation'',
        ''dimension_17_continuity_anchoring'', ''dimension_18_prompt_generation'']"

definition report_entry :: "GenerationResult \<Rightarrow> ReportEntry" where
  "report_entry r =
     \<lparr> re_segment_id = segment_id r, re_success = success r,
       re_output_path = (case output_path r of None \<Rightarrow> None | Some p \<Rightarrow> Some p),
       re_generation_time = generation_time r, re_error = error_message r,
       re_metadata = metadata r \<rparr>"

text \<open>\<^verbatim>\<open>_generate_report\<close>; the second argument is the clock reading of
  \<^verbatim>\<open>datetime.now()\<close>.\<close>

definition generate_report :: "GenerationResult list \<Rightarrow> rat \<Rightarrow> Report" where
  "generate_report rs t =
     (let succ = filter success rs;
          fl = filter (\<lambda>r. \<not> success r) rs
      in \<lparr> rp_project = ''KAIZEN Elite Portfolio'', rp_generated_at = t,
           total_segments = length rs, successful = length succ, failed = length fl,
           total_generation_time = sum_list (map generation_time rs),
           results = map report_entry rs, coverage_matrix = coverage \<rparr>)"

text \<open>The generation loop of \<^verbatim>\<open>run\<close>, with its two accumulators. An exception that
  leaves \<^verbatim>\<open>generate_segment\<close> leaves the loop.\<close>

fun generate_loop ::
  "VideoGenerator \<Rightarrow> env \<Rightarrow> global_context \<Rightarrow> Segment list \<Rightarrow> GenerationResult list \<Rightarrow> string list
     \<Rightarrow> world \<Rightarrow> (py_error + GenerationResult list \<times> string list) \<times> world" where
  "generate_loop g e gc [] rs ps w = (Inr (rs, ps), w)"
| "generate_loop g e gc (s # ss) rs ps w =
     (case generate_segment g e s gc w of
        (Inl x, w') \<Rightarrow> (Inl x, w')
      | (Inr r, w') \<Rightarrow>
          generate_loop g e gc ss (rs @ [r])
            (if success r \<and> output_path r \<noteq> None then ps @ [the (output_path r)] else ps) w')"

datatype run_result = PreviewStatus nat | RunReport Report

text \<open>\<^verbatim>\<open>if segment_ids:\<close> is false for \<^verbatim>\<open>None\<close> and for the empty list.\<close>

definition filter_segments :: "string list option \<Rightarrow> Segment list \<Rightarrow> Segment list" where
  "filter_segments segment_ids segments =
     (case segment_ids of
        None \<Rightarrow> segments
      | Some ids \<Rightarrow> if ids = [] then segments else filter (\<lambda>s. id_seg s \<in> set ids) segments)"

text \<open>\<^verbatim>\<open>GenesisOrchestrator.run\<close>, on the prompt chain that \<^verbatim>\<open>load_all\<close> has read.\<close>

definition run ::
  "VideoGenerator \<Rightarrow> env \<Rightarrow> PromptChain \<Rightarrow> string list option \<Rightarrow> bool \<Rightarrow> bool \<Rightarrow> world
     \<Rightarrow> (py_error + run_result) \<times> world" where
  "run g e pc segment_ids preview conc w =
     (case get_segments pc of Inl x \<Rightarrow> (Inl x, w) | Inr loaded \<Rightarrow>
      (let gc = get_global_context pc;
           segments = filter_segments segment_ids loaded
       in case generate segments of Inl x \<Rightarrow> (Inl x, w) | Inr timeline \<Rightarrow>
          (let timeline_path = path_join (output_dir (config g)) ''timeline_visualization.txt'';
               w1 = write_file timeline_path (TextFile timeline) w
           in if preview then (Inr (PreviewStatus (length segments)), w1)
              else (case generate_loop g e gc segments [] [] w1 of
                      (Inl x, w2) \<Rightarrow> (Inl x, w2)
                    | (Inr (rs, successful_paths), w2) \<Rightarrow>
                        (let w3 = (if conc \<and> length successful_paths > 1
                                   then snd (concatenate successful_paths
                                          (path_join (output_dir (config g)) ''kaizen_portfolio_final.mp4'') w2)
                                   else w2);
                             report = generate_report rs (now w3);
                             w4 = write_file (path_join (output_dir (config g)) ''generation_report.json'')
                                    (ReportFile report) w3;
                             w5 = close g w4
                         in (Inr (RunReport report), w5))))))"

subsection \<open>The specification's wording of the enhanced prompt\<close>

text \<open>The enhanced prompt as the specification describes it: one line per context field,
  in the fixed order, a missing key rendered as the empty string; then an empty line and
  the raw prompt.\<close>

definition context_fields :: "(string \<times> string) list" where
  "context_fields =
     [(''Style'', ''style''), (''Color Palette'', ''color_palette''), (''Device'', ''device''),
      (''Lighting'', ''lighting''), (''Camera'', ''camera''), (''Quality'', ''quality'')]"

definition spec_enhanced_prompt :: "Segment \<Rightarrow> (string \<rightharpoonup> string) \<Rightarrow> string" where
  "spec_enhanced_prompt seg d =
     concat (map (\<lambda>(label, key). label @ '': '' @ (case d key of None \<Rightarrow> [] | Some v \<Rightarrow> v) @ NL)
               context_fields)
     @ NL @ prompt seg"

subsection \<open>The loader's outcome, entry by entry\<close>

text \<open>The first required key an entry lacks, in the order the loader reads them, and the
  segment of an entry that has all four: its optional fields default to the empty string,
  list or dictionary.\<close>

definition first_missing_field :: "PromptData \<Rightarrow> string option" where
  "first_missing_field pd =
     (if pd_segment_id pd = None then Some ''segment_id''
      else if pd_segment_name pd = None then Some ''segment_name''
      else if pd_duration_seconds pd = None then Some ''duration_seconds''
      else if pd_prompt pd = None then Some ''prompt''
      else None)"

definition segment_with_defaults :: "PromptData \<Rightarrow> Segment" where
  "segment_with_defaults pd =
     \<lparr> id_seg = the (pd_segment_id pd), name = the (pd_segment_name pd),
       duration_seconds = the (pd_duration_seconds pd), prompt = the (pd_prompt pd),
       negative_prompt = (case pd_negative_prompt pd of None \<Rightarrow> [] | Some v \<Rightarrow> v),
       entry_frame = (case pd_entry_frame pd of None \<Rightarrow> Map.empty | Some v \<Rightarrow> v),
       exit_frame = (case pd_exit_frame pd of None \<Rightarrow> Map.empty | Some v \<Rightarrow> v),
       key_moments = (case pd_key_moments pd of None \<Rightarrow> [] | Some v \<Rightarrow> v),
       audio_description = (case pd_audio_description pd of None \<Rightarrow> [] | Some v \<Rightarrow> v),
       motion_keywords = (case pd_motion_keywords pd of None \<Rightarrow> [] | Some v \<Rightarrow> v),
       continuity_requirements =
         (case pd_continuity_requirements pd of None \<Rightarrow> Map.empty | Some v \<Rightarrow> v) \<rparr>"

subsection \<open>Example inputs\<close>

definition example_segment :: Segment where
  "example_segment =
     \<lparr> id_seg = ''S1_boot'', name = ''Boot Sequence'', duration_seconds = 8,
       prompt = ''A terminal boots'', negative_prompt = ''blurry'',
       entry_frame = Map.empty, exit_frame = Map.empty,
       key_moments = [[''time'' \<mapsto> ''0.0s'', ''action'' \<mapsto> ''cursor blinks'']],
       audio_description = [], motion_keywords = [''zoom'', ''fade''],
       continuity_requirements = Map.empty \<rparr>"

definition example_entry :: PromptData where
  "example_entry =
     \<lparr> pd_segment_id = Some ''S1_boot'', pd_segment_name = Some ''Boot Sequence'',
       pd_duration_seconds = Some 8, pd_prompt = Some ''A terminal boots'',
       pd_negative_prompt = None, pd_entry_frame = None, pd_exit_frame = None,
       pd_key_moments = None, pd_audio_description = None, pd_motion_keywords = None,
       pd_continuity_requirements = None \<rparr>"

definition initial_world :: world where
  "initial_world = \<lparr> now = 0, posts = 0, sent = [], sleeps = [], files = Map.empty, client_closed = False \<rparr>"

definition live_generator :: VideoGenerator where
  "live_generator = VideoGenerator_init True (default_Config ''secret'' ''output'')"


text \<open>A live generator whose configuration sets the seed to zero.\<close>

definition seeded_generator :: VideoGenerator where
  "seeded_generator =
     VideoGenerator_init True ((default_Config ''secret'' ''output'')\<lparr> seed := Some 0 \<rparr>)"

definition simulation_generator :: VideoGenerator where
  "simulation_generator = VideoGenerator_init True (default_Config [] ''output'')"

text \<open>Services: one that accepts every request, one that answers 503 twice and then
  accepts, one that always answers 503, and one that cannot be reached.\<close>

definition service :: "(nat \<Rightarrow> api_outcome) \<Rightarrow> env" where
  "service f = \<lparr> attempt_outcome = f, attempt_latency = (\<lambda>k. 1),
                 md5_hexdigest = (\<lambda>s. ''9e107d9d372bb6826bd81d3542a419d6'') \<rparr>"

definition accepting :: env where
  "accepting = service (\<lambda>k. Accepted)"

definition recovering :: env where
  "recovering = service (\<lambda>k. if k < 2 then StatusFailure ''503 Service Unavailable'' else Accepted)"

definition unavailable :: env where
  "unavailable = service (\<lambda>k. StatusFailure ''503 Service Unavailable'')"

definition unreachable :: env where
  "unreachable = service (\<lambda>k. OtherFailure ''All connection attempts failed'')"

definition example_chain :: PromptChain where
  "example_chain = \<lparr> pc_prompts = Some [example_entry], pc_global_context = None \<rparr>"


section \<open>Properties\<close>

subsection \<open>Crossfade offsets\<close>





subsection \<open>Enhanced prompt\<close>

text \<open>
  C7. The enhanced prompt is a function of the segment and the context dictionary alone (it
  takes neither the world nor the service), and it is the text the specification
  describes: the six context fields in the order style, color_palette, device, lighting,
  camera, quality, each on its own line, a missing key rendered as the empty string,
  followed by the raw prompt. With no key present every field is empty.
\<close>

theorem c7_enhanced_prompt:
  "build_enhanced_prompt seg (ContextDict d) = Inr (spec_enhanced_prompt seg d)
   \<and> build_enhanced_prompt seg (ContextDict Map.empty)
       = Inr (''Style: '' @ NL @ ''Color Palette: '' @ NL @ ''Device: '' @ NL @ ''Lighting: '' @ NL
              @ ''Camera: '' @ NL @ ''Quality: '' @ NL @ NL @ prompt seg)"
  by (simp add: build_enhanced_prompt_def spec_enhanced_prompt_def context_fields_def dict_get_def)

subsection \<open>Specification loader\<close>

lemma make_segment_complete:
  "first_missing_field pd = None \<Longrightarrow> make_segment pd = Inr (segment_with_defaults pd)"
  by (auto simp: first_missing_field_def make_segment_def subscript_def get_default_def
        segment_with_defaults_def split: if_splits option.splits)

lemma make_segment_missing:
  "first_missing_field pd = Some k \<Longrightarrow> make_segment pd = Inl (KeyError k)"
  by (auto simp: first_missing_field_def make_segment_def subscript_def
        split: if_splits option.splits)

lemma segments_loop_complete:
  "\<forall>pd \<in> set pds. first_missing_field pd = None \<Longrightarrow>
     segments_loop pds = Inr (map segment_with_defaults pds)"
  by (induction pds) (simp_all add: make_segment_complete)

lemma segments_loop_first_missing:
  "i < length pds \<Longrightarrow> first_missing_field (pds ! i) = Some k \<Longrightarrow>
   \<forall>j < i. first_missing_field (pds ! j) = None \<Longrightarrow>
     segments_loop pds = Inl (KeyError k)"
proof (induction pds arbitrary: i)
  case Nil
  then show ?case by simp
next
  case (Cons pd pds)
  show ?case
  proof (cases i)
    case 0
    with Cons.prems show ?thesis by (simp add: make_segment_missing)
  next
    case (Suc i')
    from Cons.prems Suc have hd_ok: "first_missing_field pd = None" by auto
    from Cons.prems Suc have tl: "segments_loop pds = Inl (KeyError k)"
      by (intro Cons.IH [of i']) auto
    from hd_ok tl show ?thesis by (simp add: make_segment_complete)
  qed
qed

text \<open>
  C4 (as amended). When every entry of the prompt chain has the four required fields, the
  loader returns one segment per entry, in order, with the optional fields defaulting to
  the empty string, list or dictionary. When entry \<open>i\<close> is the first that lacks a required
  field, the loader fails with a \<^verbatim>\<open>KeyError\<close> that names the first missing field of that
  entry (in the order segment_id, segment_name, duration_seconds, prompt); the error
  carries no entry index.
\<close>

theorem c4_loader_key_error:
  "((\<forall>pd \<in> set pds. first_missing_field pd = None) \<longrightarrow>
      get_segments \<lparr> pc_prompts = Some pds, pc_global_context = gc \<rparr>
        = Inr (map segment_with_defaults pds))
   \<and> (i < length pds \<and> first_missing_field (pds ! i) = Some k
        \<and> (\<forall>j < i. first_missing_field (pds ! j) = None) \<longrightarrow>
      get_segments \<lparr> pc_prompts = Some pds, pc_global_context = gc \<rparr> = Inl (KeyError k))"
proof (intro conjI impI)
  assume "\<forall>pd \<in> set pds. first_missing_field pd = None"
  then show "get_segments \<lparr> pc_prompts = Some pds, pc_global_context = gc \<rparr>
        = Inr (map segment_with_defaults pds)"
    by (simp add: get_segments_def get_default_def segments_loop_complete)
next
  assume a: "i < length pds \<and> first_missing_field (pds ! i) = Some k
        \<and> (\<forall>j < i. first_missing_field (pds ! j) = None)"
  then have "segments_loop pds = Inl (KeyError k)"
    using segments_loop_first_missing [of i pds k] by blast
  then show "get_segments \<lparr> pc_prompts = Some pds, pc_global_context = gc \<rparr> = Inl (KeyError k)"
    by (simp add: get_segments_def get_default_def)
qed

theorem c4_loader_key_error_witness:
  "get_segments \<lparr> pc_prompts = Some [example_entry], pc_global_context = None \<rparr>
     = Inr [segment_with_defaults example_entry]
   \<and> negative_prompt (segment_with_defaults example_entry) = []
   \<and> key_moments (segment_with_defaults example_entry) = []
   \<and> motion_keywords (segment_with_defaults example_entry) = []
   \<and> get_segments \<lparr> pc_prompts = Some [example_entry, example_entry\<lparr> pd_duration_seconds := None \<rparr>],
                     pc_global_context = None \<rparr>
     = Inl (KeyError ''duration_seconds'')"
  using c4_loader_key_error [of "[example_entry]" None 0 "''x''"]
    c4_loader_key_error [of "[example_entry, example_entry\<lparr> pd_duration_seconds := None \<rparr>]"
      None 1 "''duration_seconds''"]
  by (simp add: first_missing_field_def example_entry_def segment_with_defaults_def)

text \<open>C4 as stated fails: an entry without \<^verbatim>\<open>prompt\<close> raises \<^verbatim>\<open>KeyError('prompt')\<close>,
  the same error whether the entry is at index 1 or at index 0; there is no
  \<^verbatim>\<open>MalformedSpecification\<close> error and no index in it.\<close>

theorem c4_error_counterexample:
  "get_segments \<lparr> pc_prompts = Some [example_entry, example_entry\<lparr> pd_prompt := None \<rparr>],
                  pc_global_context = None \<rparr> = Inl (KeyError ''prompt'')
   \<and> get_segments \<lparr> pc_prompts = Some [example_entry\<lparr> pd_prompt := None \<rparr>],
                  pc_global_context = None \<rparr> = Inl (KeyError ''prompt'')"
  by (simp add: get_segments_def get_default_def make_segment_def subscript_def example_entry_def)

subsection \<open>Request payload\<close>

lemma build_payload_dom:
  "dom (build_payload cfg seg p) =
     {''prompt'', ''negative_prompt'', ''duration'', ''resolution'', ''fps'', ''guidance_scale'',
      ''num_inference_steps''} \<union> (if truthy_seed (seed cfg) then {''seed''} else {})"
  by (auto simp: build_payload_def Let_def split: if_splits)

lemma build_payload_resolution:
  "build_payload cfg seg p ''resolution''
     = Some (PStr (str_int (fst (resolution cfg)) @ ''x'' @ str_int (snd (resolution cfg))))"
  by (simp add: build_payload_def Let_def)

subsection \<open>Timeline visualizer\<close>

lemma collect_Inr:
  "\<forall>x \<in> set xs. \<exists>y. f x = Inr y \<Longrightarrow> \<exists>ys. collect f xs = Inr ys"
  by (induction xs) auto

lemma collect_Inr_D:
  "collect f xs = Inr ys \<Longrightarrow> x \<in> set xs \<Longrightarrow> \<exists>y. f x = Inr y"
  by (induction xs arbitrary: ys) (auto split: sum.splits)

lemma is_digit_not_underscore: "is_digit c \<Longrightarrow> c \<noteq> CHR ''_''"
  by (auto simp: is_digit_def less_eq_char_def)

lemma segment_bar_ok:
  assumes "1 < length (id_seg s)" and "is_digit (id_seg s ! 1)"
  shows "\<exists>ls. segment_bar s = Inr ls"
proof -
  from assms(1) obtain a b rest where sid: "id_seg s = a # b # rest"
    by (cases "id_seg s"; cases "tl (id_seg s)") auto
  with assms(2) have d: "is_digit b" by simp
  then have "b \<noteq> CHR ''_''" by (rule is_digit_not_underscore)
  with sid d show ?thesis
    by (simp add: segment_bar_def start_sec_def str_index_def int_of_char_def Let_def)
qed

lemma segment_bar_only:
  assumes "segment_bar s = Inr ls"
  shows "1 < length (id_seg s) \<and> is_digit (id_seg s ! 1)"
  using assms
  by (auto simp: segment_bar_def str_index_def int_of_char_def Let_def
        split: sum.splits if_splits)

lemma moment_line_ok:
  "m ''time'' \<noteq> None \<Longrightarrow> m ''action'' \<noteq> None \<Longrightarrow> \<exists>l. moment_line m = Inr l"
  by (auto simp: moment_line_def)

lemma moment_line_only:
  "moment_line m = Inr l \<Longrightarrow> m ''time'' \<noteq> None \<and> m ''action'' \<noteq> None"
  by (auto simp: moment_line_def split: option.splits)

lemma segment_events_ok:
  assumes "\<forall>m \<in> set (take 3 (key_moments s)). m ''time'' \<noteq> None \<and> m ''action'' \<noteq> None"
  shows "\<exists>ls. segment_events s = Inr ls"
proof -
  from assms have "\<forall>m \<in> set (take 3 (key_moments s)). \<exists>l. moment_line m = Inr l"
    by (auto intro: moment_line_ok)
  then obtain ls where "collect moment_line (take 3 (key_moments s)) = Inr ls"
    using collect_Inr [of "take 3 (key_moments s)" moment_line] by auto
  then show ?thesis by (simp add: segment_events_def)
qed

lemma generate_returns:
  assumes "\<forall>s \<in> set segments. 1 < length (id_seg s) \<and> is_digit (id_seg s ! 1)
             \<and> (\<forall>m \<in> set (take 3 (key_moments s)). m ''time'' \<noteq> None \<and> m ''action'' \<noteq> None)"
  shows "\<exists>text. generate segments = Inr text"
proof -
  from assms have "\<forall>s \<in> set segments. \<exists>ls. segment_bar s = Inr ls"
    by (auto intro: segment_bar_ok)
  then obtain bars where bars: "collect segment_bar segments = Inr bars"
    using collect_Inr [of segments segment_bar] by auto
  from assms have "\<forall>s \<in> set segments. \<exists>ls. segment_events s = Inr ls"
    by (auto intro: segment_events_ok)
  then obtain events where events: "collect segment_events segments = Inr events"
    using collect_Inr [of segments segment_events] by auto
  from bars events show ?thesis by (simp add: generate_def Let_def)
qed

text \<open>
  C2 (as amended). The render operation returns a text for every segment list in which
  each segment id has a decimal digit as its second character and each of the first three
  key moments of each segment has a \<^verbatim>\<open>time\<close> and an \<^verbatim>\<open>action\<close> entry, whatever the
  names, the later key moments and the motion keywords are.
\<close>

theorem c2_render_total_on_numbered_ids:
  assumes "\<forall>s \<in> set segments. 1 < length (id_seg s) \<and> is_digit (id_seg s ! 1)
             \<and> (\<forall>m \<in> set (take 3 (key_moments s)). m ''time'' \<noteq> None \<and> m ''action'' \<noteq> None)"
  shows "\<exists>text. generate segments = Inr text"
  using assms by (rule generate_returns)

text \<open>Conversely, a render that returns has met these conditions on every segment: on
  any other list it raises.\<close>

lemma generate_only:
  assumes "generate segments = Inr text" and "s \<in> set segments"
  shows "1 < length (id_seg s) \<and> is_digit (id_seg s ! 1)
             \<and> (\<forall>m \<in> set (take 3 (key_moments s)). m ''time'' \<noteq> None \<and> m ''action'' \<noteq> None)"
proof -
  from assms(1) obtain bars events where
    bars: "collect segment_bar segments = Inr bars" and
    events: "collect segment_events segments = Inr events"
    by (auto simp: generate_def Let_def split: sum.splits)
  from bars assms(2) obtain ls where "segment_bar s = Inr ls"
    using collect_Inr_D [of segment_bar segments bars s] by auto
  then have 1: "1 < length (id_seg s) \<and> is_digit (id_seg s ! 1)" by (rule segment_bar_only)
  from events assms(2) obtain es where "segment_events s = Inr es"
    using collect_Inr_D [of segment_events segments events s] by auto
  then obtain ms where "collect moment_line (take 3 (key_moments s)) = Inr ms"
    by (auto simp: segment_events_def split: sum.splits)
  then have "\<forall>m \<in> set (take 3 (key_moments s)). \<exists>l. moment_line m = Inr l"
    using collect_Inr_D [of moment_line "take 3 (key_moments s)" ms] by auto
  then have "\<forall>m \<in> set (take 3 (key_moments s)). m ''time'' \<noteq> None \<and> m ''action'' \<noteq> None"
    using moment_line_only by blast
  with 1 show ?thesis by simp
qed

theorem c2_render_total_on_numbered_ids_witness:
  "\<exists>text. generate [example_segment] = Inr text"
  using c2_render_total_on_numbered_ids [of "[example_segment]"]
  by (simp add: example_segment_def is_digit_def less_eq_char_def)

text \<open>C2 as stated fails: for the id \<^verbatim>\<open>intro\<close> the conversion \<^verbatim>\<open>int(seg.id[1])\<close> raises
  \<^verbatim>\<open>ValueError\<close>, and so does render.\<close>

theorem c2_render_counterexample:
  "generate [example_segment\<lparr> id_seg := ''intro'' \<rparr>]
     = Inl (ValueError (''invalid literal for int() with base 10: '' @ quote ''n''))"
  by (simp add: generate_def segment_bar_def start_sec_def str_index_def int_of_char_def
        is_digit_def less_eq_char_def example_segment_def)

subsection \<open>Retry loop of the live request\<close>

lemma call_api_loop_failures:
  "a + k < n \<Longrightarrow> n = nat (max_retries cfg) \<Longrightarrow>
   \<forall>j < k. \<exists>m. attempt_outcome e (posts w + j) = StatusFailure m \<Longrightarrow>
   \<exists>w'. call_api_loop cfg e pl [a ..< n] w = call_api_loop cfg e pl [a + k ..< n] w'
        \<and> posts w' = posts w + k
        \<and> sleeps w' = sleeps w @ replicate k (retry_delay cfg)
        \<and> files w' = files w"
proof (induction k arbitrary: a w)
  case 0
  show ?case by (intro exI [of _ w]) simp
next
  case (Suc k)
  from Suc.prems(3) obtain m where m: "attempt_outcome e (posts w) = StatusFailure m"
    by force
  define w1 where "w1 = sleep (retry_delay cfg) (w\<lparr> now := now w + attempt_latency e (posts w), posts := Suc (posts w), sent := sent w @ [pl] \<rparr>)"
  have p1: "posts w1 = Suc (posts w)" and s1: "sleeps w1 = sleeps w @ [retry_delay cfg]"
    and f1: "files w1 = files w"
    by (simp_all add: w1_def sleep_def)
  from Suc.prems(1) have lt: "a < n" by simp
  from Suc.prems(1,2) have before_last: "int a < max_retries cfg - 1" by linarith
  have step: "call_api_loop cfg e pl [a ..< n] w = call_api_loop cfg e pl [Suc a ..< n] w1"
    using lt m before_last by (simp add: upt_conv_Cons Let_def w1_def)
  have "\<forall>j < k. \<exists>m. attempt_outcome e (posts w1 + j) = StatusFailure m"
    using Suc.prems(3) p1 by (metis Suc_less_eq add_Suc_shift) 
  moreover from Suc.prems(1) have "Suc a + k < n" by simp
  ultimately obtain w' where
    "call_api_loop cfg e pl [Suc a ..< n] w1 = call_api_loop cfg e pl [Suc a + k ..< n] w'"
    "posts w' = posts w1 + k" "sleeps w' = sleeps w1 @ replicate k (retry_delay cfg)"
    "files w' = files w1"
    using Suc.IH [of "Suc a" w1] Suc.prems(2) by blast
  with step p1 s1 f1 show ?case
    by (intro exI [of _ w']) (simp add: replicate_app_Cons_same)
qed

lemma call_api_loop_last:
  assumes "b < n" and "n = nat (max_retries cfg)"
  shows "attempt_outcome e (posts w) = Accepted \<Longrightarrow>
           call_api_loop cfg e pl [b ..< n] w
             = (Inr (Some (posts w)), w\<lparr> now := now w + attempt_latency e (posts w), posts := Suc (posts w), sent := sent w @ [pl] \<rparr>)"
    and "attempt_outcome e (posts w) = OtherFailure m \<Longrightarrow>
           call_api_loop cfg e pl [b ..< n] w
             = (Inl (OtherException m), w\<lparr> now := now w + attempt_latency e (posts w), posts := Suc (posts w), sent := sent w @ [pl] \<rparr>)"
    and "attempt_outcome e (posts w) = StatusFailure m \<Longrightarrow> Suc b = n \<Longrightarrow>
           call_api_loop cfg e pl [b ..< n] w
             = (Inl (HTTPStatusError m), w\<lparr> now := now w + attempt_latency e (posts w), posts := Suc (posts w), sent := sent w @ [pl] \<rparr>)"
  using assms by (simp_all add: upt_conv_Cons Let_def)

text \<open>What \<^verbatim>\<open>_call_api\<close> returns and how many posts and sleeps it has made, after \<open>k\<close>
  failed statuses followed by an outcome \<open>o\<close> that ends the loop.\<close>

lemma call_api_after_failures:
  assumes k: "k < nat (max_retries cfg)"
    and fails: "\<forall>j < k. \<exists>m. attempt_outcome e (posts w + j) = StatusFailure m"
  shows "attempt_outcome e (posts w + k) = Accepted \<Longrightarrow>
           fst (call_api cfg e seg p w) = Inr (Some (posts w + k))
           \<and> posts (snd (call_api cfg e seg p w)) = posts w + k + 1
           \<and> sleeps (snd (call_api cfg e seg p w)) = sleeps w @ replicate k (retry_delay cfg)"
    and "attempt_outcome e (posts w + k) = OtherFailure m \<Longrightarrow>
           fst (call_api cfg e seg p w) = Inl (OtherException m)
           \<and> posts (snd (call_api cfg e seg p w)) = posts w + k + 1
           \<and> sleeps (snd (call_api cfg e seg p w)) = sleeps w @ replicate k (retry_delay cfg)"
    and "attempt_outcome e (posts w + k) = StatusFailure m \<Longrightarrow> Suc k = nat (max_retries cfg) \<Longrightarrow>
           fst (call_api cfg e seg p w) = Inl (HTTPStatusError m)
           \<and> posts (snd (call_api cfg e seg p w)) = posts w + k + 1
           \<and> sleeps (snd (call_api cfg e seg p w)) = sleeps w @ replicate k (retry_delay cfg)"
proof -
  define n where "n = nat (max_retries cfg)"
  from k have "0 + k < n" by (simp add: n_def)
  then obtain w' where
    eq: "call_api_loop cfg e (build_payload cfg seg p) [0 ..< n] w
           = call_api_loop cfg e (build_payload cfg seg p) [0 + k ..< n] w'"
    and p: "posts w' = posts w + k"
    and s: "sleeps w' = sleeps w @ replicate k (retry_delay cfg)"
    using call_api_loop_failures [of 0 k n cfg e w "build_payload cfg seg p"] fails n_def by blast
  have kn: "k < n" using k by (simp add: n_def)
  show "attempt_outcome e (posts w + k) = Accepted \<Longrightarrow>
           fst (call_api cfg e seg p w) = Inr (Some (posts w + k))
           \<and> posts (snd (call_api cfg e seg p w)) = posts w + k + 1
           \<and> sleeps (snd (call_api cfg e seg p w)) = sleeps w @ replicate k (retry_delay cfg)"
    using eq p s call_api_loop_last(1) [of k n cfg e w' "build_payload cfg seg p"] kn
    by (simp add: call_api_def n_def)
  show "attempt_outcome e (posts w + k) = OtherFailure m \<Longrightarrow>
           fst (call_api cfg e seg p w) = Inl (OtherException m)
           \<and> posts (snd (call_api cfg e seg p w)) = posts w + k + 1
           \<and> sleeps (snd (call_api cfg e seg p w)) = sleeps w @ replicate k (retry_delay cfg)"
    using eq p s call_api_loop_last(2) [of k n cfg e w' m "build_payload cfg seg p"] kn
    by (simp add: call_api_def n_def)
  show "attempt_outcome e (posts w + k) = StatusFailure m \<Longrightarrow> Suc k = nat (max_retries cfg) \<Longrightarrow>
           fst (call_api cfg e seg p w) = Inl (HTTPStatusError m)
           \<and> posts (snd (call_api cfg e seg p w)) = posts w + k + 1
           \<and> sleeps (snd (call_api cfg e seg p w)) = sleeps w @ replicate k (retry_delay cfg)"
    using eq p s call_api_loop_last(3) [of k n cfg e w' m "build_payload cfg seg p"] kn
    by (simp add: call_api_def n_def)
qed

subsection \<open>Generator\<close>

lemma build_enhanced_prompt_dict:
  "build_enhanced_prompt seg (ContextDict d) = Inr (spec_enhanced_prompt seg d)"
  by (simp add: build_enhanced_prompt_def spec_enhanced_prompt_def context_fields_def dict_get_def)

lemma generate_segment_dict:
  "generate_segment g e seg (ContextDict d) w =
     (case dispatch g e seg (spec_enhanced_prompt seg d) w of
        (Inr u, w') \<Rightarrow>
          (Inr \<lparr> segment_id = id_seg seg, success = True,
                 output_path = Some (path_join (output_dir (config g)) (output_filename seg)),
                 generation_time = now w' - now w, error_message = None,
                 metadata = Some \<lparr> md_prompt_hash = prompt_hash e seg,
                                   md_enhanced_prompt_length = length (spec_enhanced_prompt seg d),
                                   md_motion_keywords = motion_keywords seg \<rparr> \<rparr>, w')
      | (Inl x, w') \<Rightarrow>
          (Inr \<lparr> segment_id = id_seg seg, success = False, output_path = None,
                 generation_time = now w' - now w, error_message = Some (str_exc x),
                 metadata = None \<rparr>, w'))"
  by (simp add: generate_segment_def build_enhanced_prompt_dict Let_def
        split: prod.splits sum.splits)

lemma generate_segment_none:
  "generate_segment g e seg ContextNone w
     = (Inl (AttributeError (quote ''NoneType'' @ '' object has no attribute '' @ quote ''get'')), w)"
  by (simp add: generate_segment_def build_enhanced_prompt_def)

lemma generate_segment_result:
  assumes "generate_segment g e seg gc w = (Inr r, w')"
  shows "segment_id r = id_seg seg
         \<and> (output_path r \<noteq> None \<longleftrightarrow> success r)
         \<and> (error_message r \<noteq> None \<longleftrightarrow> \<not> success r)"
proof (cases gc)
  case (ContextDict d)
  with assms show ?thesis
    by (auto simp: generate_segment_dict split: prod.splits sum.splits)
next
  case ContextNone
  with assms show ?thesis by (simp add: generate_segment_none)
qed

lemma generate_segment_returns:
  "\<exists>r w'. generate_segment g e seg (ContextDict d) w = (Inr r, w')"
  by (cases "dispatch g e seg (spec_enhanced_prompt seg d) w")
     (auto simp: generate_segment_dict split: sum.splits)

lemma generate_segment_live:
  assumes "client g" and "api_key (config g) \<noteq> []"
    and "call_api (config g) e seg (spec_enhanced_prompt seg d) w = (res, w')"
  shows "\<exists>r. generate_segment g e seg (ContextDict d) w = (Inr r, w')
            \<and> (success r \<longleftrightarrow> \<not> isl res)
            \<and> (\<forall>x. res = Inl x \<longrightarrow> error_message r = Some (str_exc x))
            \<and> generation_time r = now w' - now w"
  using assms by (cases res) (simp_all add: generate_segment_dict dispatch_def)

text \<open>
  C5 (as amended). In live mode, let the first \<open>k\<close> attempts (\<open>k < max_retries\<close>) each end
  in a non-2xx response. Then the generator has slept \<open>retry_delay\<close> after each of them
  and makes attempt \<open>k\<close>: if it is accepted, the result is a success after \<open>k + 1\<close> posts
  and \<open>k\<close> sleeps; if it raises anything but a status error (a transport error), the
  request ends at once, with no further sleep or attempt, in a failure result carrying the
  message; if it is the last attempt and again a non-2xx response, the result is a failure
  result carrying the message, after \<open>max_retries\<close> posts and \<open>max_retries - 1\<close> sleeps.
  No exception leaves the generator.
\<close>

theorem c5_retry_policy:
  assumes live: "client g \<and> api_key (config g) \<noteq> []"
    and k: "k < nat (max_retries (config g))"
    and fails: "\<forall>j < k. \<exists>m. attempt_outcome e (posts w + j) = StatusFailure m"
  shows "(attempt_outcome e (posts w + k) = Accepted \<longrightarrow>
           (\<exists>r w'. generate_segment g e seg (ContextDict d) w = (Inr r, w') \<and> success r
              \<and> posts w' = posts w + k + 1
              \<and> sleeps w' = sleeps w @ replicate k (retry_delay (config g))))
       \<and> (attempt_outcome e (posts w + k) = OtherFailure m \<longrightarrow>
           (\<exists>r w'. generate_segment g e seg (ContextDict d) w = (Inr r, w') \<and> \<not> success r
              \<and> error_message r = Some m
              \<and> posts w' = posts w + k + 1
              \<and> sleeps w' = sleeps w @ replicate k (retry_delay (config g))))
       \<and> (attempt_outcome e (posts w + k) = StatusFailure m \<and> Suc k = nat (max_retries (config g)) \<longrightarrow>
           (\<exists>r w'. generate_segment g e seg (ContextDict d) w = (Inr r, w') \<and> \<not> success r
              \<and> error_message r = Some m
              \<and> posts w' = posts w + nat (max_retries (config g))
              \<and> sleeps w' = sleeps w @ replicate (nat (max_retries (config g)) - 1) (retry_delay (config g))))"
proof -
  obtain res w' where c: "call_api (config g) e seg (spec_enhanced_prompt seg d) w = (res, w')"
    by (cases "call_api (config g) e seg (spec_enhanced_prompt seg d) w")
  from live c obtain r where r: "generate_segment g e seg (ContextDict d) w = (Inr r, w')"
    "success r \<longleftrightarrow> \<not> isl res" "\<forall>x. res = Inl x \<longrightarrow> error_message r = Some (str_exc x)"
    using generate_segment_live [of g e seg d w res w'] by auto
  note facts = call_api_after_failures [OF k fails, where seg = seg and p = "spec_enhanced_prompt seg d"]
  show ?thesis
  proof (intro conjI impI)
    assume "attempt_outcome e (posts w + k) = Accepted"
    from facts(1) [OF this] c r
    show "\<exists>r w'. generate_segment g e seg (ContextDict d) w = (Inr r, w') \<and> success r
              \<and> posts w' = posts w + k + 1
              \<and> sleeps w' = sleeps w @ replicate k (retry_delay (config g))"
      by auto
  next
    assume "attempt_outcome e (posts w + k) = OtherFailure m"
    from facts(2) [OF this] c r
    show "\<exists>r w'. generate_segment g e seg (ContextDict d) w = (Inr r, w') \<and> \<not> success r
              \<and> error_message r = Some m
              \<and> posts w' = posts w + k + 1
              \<and> sleeps w' = sleeps w @ replicate k (retry_delay (config g))"
      by auto
  next
    assume a: "attempt_outcome e (posts w + k) = StatusFailure m \<and> Suc k = nat (max_retries (config g))"
    then have k': "k = nat (max_retries (config g)) - 1" by linarith
    from a facts(3) [where m = m] c r
    show "\<exists>r w'. generate_segment g e seg (ContextDict d) w = (Inr r, w') \<and> \<not> success r
              \<and> error_message r = Some m
              \<and> posts w' = posts w + nat (max_retries (config g))
              \<and> sleeps w' = sleeps w @ replicate (nat (max_retries (config g)) - 1) (retry_delay (config g))"
      by (auto simp: k')
  qed
qed

lemma live_generator_simps:
  "client live_generator" "api_key (config live_generator) \<noteq> []"
  "max_retries (config live_generator) = 3" "retry_delay (config live_generator) = 5"
  by (simp_all add: live_generator_def VideoGenerator_init_def default_Config_def)

theorem c5_retry_policy_witness:
  "(\<exists>r w'. generate_segment live_generator recovering example_segment (ContextDict Map.empty) initial_world
             = (Inr r, w') \<and> success r \<and> posts w' = 3 \<and> sleeps w' = [5, 5])
   \<and> (\<exists>r w'. generate_segment live_generator unavailable example_segment (ContextDict Map.empty) initial_world
             = (Inr r, w') \<and> \<not> success r \<and> error_message r = Some ''503 Service Unavailable''
               \<and> posts w' = 3 \<and> sleeps w' = [5, 5])
   \<and> (\<exists>r w'. generate_segment live_generator unreachable example_segment (ContextDict Map.empty) initial_world
             = (Inr r, w') \<and> \<not> success r \<and> error_message r = Some ''All connection attempts failed''
               \<and> posts w' = 1 \<and> sleeps w' = [])"
  using c5_retry_policy [where g = live_generator and k = 2 and e = recovering
      and w = initial_world and m = "''x''" and seg = example_segment and d = Map.empty]
    c5_retry_policy [where g = live_generator and k = 2 and e = unavailable
      and w = initial_world and m = "''503 Service Unavailable''" and seg = example_segment
      and d = Map.empty]
    c5_retry_policy [where g = live_generator and k = 0 and e = unreachable
      and w = initial_world and m = "''All connection attempts failed''" and seg = example_segment
      and d = Map.empty]
  by (simp add: live_generator_simps recovering_def unavailable_def unreachable_def service_def
        initial_world_def numeral_2_eq_2 numeral_3_eq_3)

text \<open>C5 as stated fails for transport errors: with \<open>max_retries = 3\<close>, a transport error
  on the first attempt ends the request after one post and without any sleep.\<close>

theorem c5_transport_error_counterexample:
  "posts (snd (generate_segment live_generator unreachable example_segment (ContextDict Map.empty)
                 initial_world)) = 1
   \<and> sleeps (snd (generate_segment live_generator unreachable example_segment (ContextDict Map.empty)
                 initial_world)) = []"
  by (simp add: generate_segment_dict dispatch_def live_generator_simps call_api_def
        unreachable_def service_def initial_world_def upt_rec)




text \<open>
  C10. Whenever the generate operation returns a result, the result's \<open>segment_id\<close> is
  the id of the input segment, in the success branch and in the failure branch; and for
  every global context that is a dictionary it does return one.
\<close>

theorem c10_result_segment_id:
  "(generate_segment g e seg gc w = (Inr r, w') \<longrightarrow> segment_id r = id_seg seg)
   \<and> (\<exists>r w'. generate_segment g e seg (ContextDict d) w = (Inr r, w') \<and> segment_id r = id_seg seg)"
proof -
  obtain r0 w0 where r0: "generate_segment g e seg (ContextDict d) w = (Inr r0, w0)"
    using generate_segment_returns [of g e seg d w] by blast
  then have "segment_id r0 = id_seg seg"
    using generate_segment_result [of g e seg "ContextDict d" w r0 w0] by simp
  with r0 show ?thesis
    using generate_segment_result [of g e seg gc w r w'] by blast
qed

theorem c10_result_segment_id_witness:
  "segment_id (projr (fst (generate_segment simulation_generator accepting example_segment
       (ContextDict Map.empty) initial_world))) = ''S1_boot''
   \<and> segment_id (projr (fst (generate_segment live_generator unavailable example_segment
       (ContextDict Map.empty) initial_world))) = ''S1_boot''"
proof -
  obtain r w' where a: "generate_segment simulation_generator accepting example_segment
       (ContextDict Map.empty) initial_world = (Inr r, w')"
    using generate_segment_returns by blast
  obtain r2 w2 where b: "generate_segment live_generator unavailable example_segment
       (ContextDict Map.empty) initial_world = (Inr r2, w2)"
    using generate_segment_returns by blast
  from a b show ?thesis
    using c10_result_segment_id [where g = simulation_generator and e = accepting
        and seg = example_segment and gc = "ContextDict Map.empty" and w = initial_world
        and r = r and w' = w']
      c10_result_segment_id [where g = live_generator and e = unavailable
        and seg = example_segment and gc = "ContextDict Map.empty" and w = initial_world
        and r = r2 and w' = w2]
    by (simp add: example_segment_def)
qed

subsection \<open>Results and report\<close>

lemma generate_loop_results:
  "generate_loop g e gc segs rs ps w = (Inr (rs', ps'), w') \<Longrightarrow>
   \<forall>r \<in> set rs. (output_path r \<noteq> None \<longleftrightarrow> success r) \<and> (error_message r \<noteq> None \<longleftrightarrow> \<not> success r) \<Longrightarrow>
   (\<forall>r \<in> set rs'. (output_path r \<noteq> None \<longleftrightarrow> success r) \<and> (error_message r \<noteq> None \<longleftrightarrow> \<not> success r))
   \<and> length rs' = length rs + length segs"
proof (induction segs arbitrary: rs ps w)
  case Nil
  then show ?case by simp
next
  case (Cons s segs)
  from Cons.prems(1) obtain r w1 where
    r: "generate_segment g e s gc w = (Inr r, w1)" and
    rest: "generate_loop g e gc segs (rs @ [r])
             (if success r \<and> output_path r \<noteq> None then ps @ [the (output_path r)] else ps) w1
           = (Inr (rs', ps'), w')"
    by (auto split: prod.splits sum.splits)
  from r have "(output_path r \<noteq> None \<longleftrightarrow> success r) \<and> (error_message r \<noteq> None \<longleftrightarrow> \<not> success r)"
    using generate_segment_result [of g e s gc w r w1] by simp
  with Cons.prems(2) have
    "\<forall>r \<in> set (rs @ [r]). (output_path r \<noteq> None \<longleftrightarrow> success r) \<and> (error_message r \<noteq> None \<longleftrightarrow> \<not> success r)"
    by auto
  from Cons.IH [OF rest this] show ?case by simp
qed

lemma generate_loop_returns:
  "\<exists>rs' ps' w'. generate_loop g e (ContextDict d) segs rs ps w = (Inr (rs', ps'), w')"
proof (induction segs arbitrary: rs ps w)
  case Nil
  show ?case by simp
next
  case (Cons s segs)
  obtain r w1 where "generate_segment g e s (ContextDict d) w = (Inr r, w1)"
    using generate_segment_returns [of g e s d w] by blast
  with Cons.IH show ?case by simp
qed

lemma generate_report_counts:
  "successful (generate_report rs t) + failed (generate_report rs t)
     = total_segments (generate_report rs t)"
  by (simp add: generate_report_def Let_def sum_length_filter_compl)

lemma generate_report_entries:
  assumes "\<forall>r \<in> set rs. (output_path r \<noteq> None \<longleftrightarrow> success r) \<and> (error_message r \<noteq> None \<longleftrightarrow> \<not> success r)"
    and "en \<in> set (results (generate_report rs t))"
  shows "(re_output_path en \<noteq> None \<longleftrightarrow> re_success en) \<and> (re_error en \<noteq> None \<longleftrightarrow> \<not> re_success en)"
  using assms by (auto simp: generate_report_def Let_def report_entry_def split: option.splits)

lemma run_report:
  assumes "run g e pc ids pv conc w = (Inr (RunReport rep), w')"
  shows "\<exists>segs rs ps w1 w2 t.
           generate_loop g e (get_global_context pc) segs [] [] w1 = (Inr (rs, ps), w2)
           \<and> rep = generate_report rs t"
  using assms
  by (auto simp: run_def Let_def split: sum.splits if_splits prod.splits) blast+

text \<open>
  C6. Every result the generator returns has an output path iff it is a success and an
  error message iff it is a failure, so exactly one of the two is present; the report
  built from any list of results has \<open>successful + failed = total_segments\<close>; and in the
  report a run returns, the counts add up and every entry has an output path iff it is a
  success and an error iff it is a failure.
\<close>

theorem c6_result_and_report_invariants:
  "(generate_segment g e seg gc w = (Inr r, w') \<longrightarrow>
      (output_path r \<noteq> None \<longleftrightarrow> success r) \<and> (error_message r \<noteq> None \<longleftrightarrow> \<not> success r))
   \<and> successful (generate_report rs t) + failed (generate_report rs t)
       = total_segments (generate_report rs t)
   \<and> (run g e pc ids pv conc w0 = (Inr (RunReport rep), w1) \<longrightarrow>
        successful rep + failed rep = total_segments rep
        \<and> (\<forall>en \<in> set (results rep).
              (re_output_path en \<noteq> None \<longleftrightarrow> re_success en) \<and> (re_error en \<noteq> None \<longleftrightarrow> \<not> re_success en)))"
proof (intro conjI impI)
  assume "generate_segment g e seg gc w = (Inr r, w')"
  then show "output_path r \<noteq> None \<longleftrightarrow> success r" "error_message r \<noteq> None \<longleftrightarrow> \<not> success r"
    using generate_segment_result [of g e seg gc w r w'] by simp_all
next
  show "successful (generate_report rs t) + failed (generate_report rs t)
       = total_segments (generate_report rs t)"
    by (rule generate_report_counts)
next
  assume a: "run g e pc ids pv conc w0 = (Inr (RunReport rep), w1)"
  from run_report [OF a] obtain segs rs' ps wa wb t' where
    loop: "generate_loop g e (get_global_context pc) segs [] [] wa = (Inr (rs', ps), wb)"
    and rep: "rep = generate_report rs' t'"
    by blast
  from rep show "successful rep + failed rep = total_segments rep"
    by (simp add: generate_report_counts)
  from loop have inv: "\<forall>r \<in> set rs'. (output_path r \<noteq> None \<longleftrightarrow> success r) \<and> (error_message r \<noteq> None \<longleftrightarrow> \<not> success r)"
    using generate_loop_results [of g e "get_global_context pc" segs "[]" "[]" wa rs' ps wb] by simp
  show "\<forall>en \<in> set (results rep).
              (re_output_path en \<noteq> None \<longleftrightarrow> re_success en) \<and> (re_error en \<noteq> None \<longleftrightarrow> \<not> re_success en)"
    using generate_report_entries [OF inv] rep by blast
qed

lemma example_chain_loaded:
  "get_segments example_chain = Inr [segment_with_defaults example_entry]"
  by (simp add: example_chain_def get_segments_def get_default_def make_segment_complete
        first_missing_field_def example_entry_def)

lemma example_timeline:
  "\<exists>text. generate [segment_with_defaults example_entry] = Inr text"
  by (rule generate_returns)
     (simp add: segment_with_defaults_def example_entry_def is_digit_def less_eq_char_def)

lemma run_returns_report:
  assumes "get_segments pc = Inr loaded"
    and "generate (filter_segments ids loaded) = Inr timeline"
    and "get_global_context pc = ContextDict d"
  shows "\<exists>rep w'. run g e pc ids False conc w = (Inr (RunReport rep), w')"
proof -
  let ?w1 = "write_file (path_join (output_dir (config g)) ''timeline_visualization.txt'')
               (TextFile timeline) w"
  obtain rs ps w2 where
    "generate_loop g e (ContextDict d) (filter_segments ids loaded) [] [] ?w1 = (Inr (rs, ps), w2)"
    using generate_loop_returns [of g e d "filter_segments ids loaded" "[]" "[]" ?w1] by blast
  with assms show ?thesis by (simp add: run_def Let_def)
qed

theorem c6_result_and_report_invariants_witness:
  "\<exists>rep w'. run simulation_generator accepting example_chain None False True initial_world
               = (Inr (RunReport rep), w')
            \<and> successful rep + failed rep = total_segments rep
            \<and> list_all (\<lambda>en. (re_output_path en \<noteq> None) = re_success en) (results rep)"
proof -
  obtain timeline where tl: "generate [segment_with_defaults example_entry] = Inr timeline"
    using example_timeline by blast
  have gc: "get_global_context example_chain = ContextDict Map.empty"
    by (simp add: get_global_context_def get_default_def example_chain_def)
  have tl': "generate (filter_segments None [segment_with_defaults example_entry]) = Inr timeline"
    using tl by (simp add: filter_segments_def)
  from run_returns_report [OF example_chain_loaded tl' gc, of simulation_generator accepting True
      initial_world]
  obtain rep w' where
    r: "run simulation_generator accepting example_chain None False True initial_world
          = (Inr (RunReport rep), w')"
    by blast
  from c6_result_and_report_invariants [where g = simulation_generator and e = accepting
      and pc = example_chain and ids = None and pv = False and conc = True and ?w0.0 = initial_world
      and rep = rep and ?w1.0 = w'] r
  have "successful rep + failed rep = total_segments rep
        \<and> (\<forall>en \<in> set (results rep).
              (re_output_path en \<noteq> None \<longleftrightarrow> re_success en) \<and> (re_error en \<noteq> None \<longleftrightarrow> \<not> re_success en))"
    by blast
  with r show ?thesis by (auto simp: list_all_iff)
qed

subsection \<open>Preview\<close>




subsection \<open>Payload of a live request\<close>

lemma seeded_generator_simps:
  "client seeded_generator" "api_key (config seeded_generator) \<noteq> []"
  "max_retries (config seeded_generator) = 3" "seed (config seeded_generator) = Some 0"
  by (simp_all add: seeded_generator_def VideoGenerator_init_def default_Config_def)

text \<open>
  C8, at the failing input. With the seed configured as \<open>0\<close>, the payload the live
  request posts is the one \<^verbatim>\<open>_call_api\<close> assembles, and it has no \<^verbatim>\<open>seed\<close> key: the
  test \<^verbatim>\<open>if self.config.seed\<close> is false for \<open>0\<close> as it is for \<^verbatim>\<open>None\<close>.
\<close>

theorem c8_seed_zero_omitted:
  "seed (config seeded_generator) = Some 0
   \<and> sent (snd (generate_segment seeded_generator accepting example_segment (ContextDict Map.empty)
                   initial_world))
       = [build_payload (config seeded_generator) example_segment
            (spec_enhanced_prompt example_segment Map.empty)]
   \<and> ''seed'' \<notin> dom (build_payload (config seeded_generator) example_segment
                         (spec_enhanced_prompt example_segment Map.empty))"
  by (simp add: generate_segment_dict dispatch_def call_api_def seeded_generator_simps
        accepting_def service_def initial_world_def upt_rec build_payload_dom truthy_seed_def)

end
